theory Spec2Isabelle
  imports Main "HOL-Library.List_Lexorder"
begin

section \<open>Errors\<close>

text \<open>
  Go error values, as far as the program observes them: the text returned by
  \<^verbatim>\<open>Error()\<close> and the chain that \<^verbatim>\<open>errors.As\<close> walks.
  \<^item> \<open>ErrorString\<close>: a plain error (\<^verbatim>\<open>errors.New\<close>, \<^verbatim>\<open>fmt.Errorf\<close>);
  \<^item> \<open>ParseError\<close>: the error of \<^verbatim>\<open>envconfig.Process\<close> for a value that does not convert
    (key, field, type, value); its text is given up to the details of the conversion
    error that the library appends;
  \<^item> \<open>EventsError\<close>: the labeled event error \<^verbatim>\<open>*events.Error\<close> (label, full message);
  \<^item> \<open>WithMessage\<close>: an error wrapping another one under a message prefix.
\<close>

datatype error =
    ErrorString string
  | ParseError string string string string
  | EventsError string string
  | WithMessage string error

fun Error :: "error \<Rightarrow> string" where
  "Error (ErrorString s) = s"
| "Error (ParseError k f t v) =
     ''envconfig.Process: assigning '' @ k @ '' to '' @ f @ '': converting '' @ [CHR 0x27] @ v
       @ [CHR 0x27] @ '' to type '' @ t"
| "Error (EventsError l m) = m"
| "Error (WithMessage m e) = m @ '': '' @ Error e"

text \<open>\<^verbatim>\<open>errors.As(err, &eventsError)\<close>: the first labeled event error on the chain.\<close>

fun errors_As_events :: "error \<Rightarrow> string option" where
  "errors_As_events (ErrorString s) = None"
| "errors_As_events (ParseError k f t v) = None"
| "errors_As_events (EventsError l m) = Some l"
| "errors_As_events (WithMessage m e) = errors_As_events e"

section \<open>The process-wide logger (logrus)\<close>

datatype Level = PanicLevel | FatalLevel | ErrorLevel | WarnLevel | InfoLevel | DebugLevel | TraceLevel

datatype Output = Stderr | Discard

record TextFormatter =
  FullTimestamp :: bool
  DisableColors :: bool
  HasSortingFunc :: bool

record Logger =
  Formatter :: TextFormatter
  Out :: Output
  Level :: Level

text \<open>The standard logger of logrus before any configuration.\<close>

definition StandardLogger :: Logger where
  "StandardLogger =
     \<lparr>Formatter = \<lparr>FullTimestamp = False, DisableColors = False, HasSortingFunc = False\<rparr>,
      Out = Stderr, Level = InfoLevel\<rparr>"

section \<open>The data model of config.go\<close>

record Project =
  Path :: string
  TerraformPlanFlags :: string
  TerraformBinary :: string
  TerraformWorkspace :: string
  TerraformCloudHost :: string
  TerraformCloudToken :: string
  UsageFile :: string
  TerraformUseState :: bool

text \<open>
  The declarations of \<^verbatim>\<open>Environment\<close>, \<^verbatim>\<open>State\<close> and \<^verbatim>\<open>Credentials\<close> are not in the
  two source files; the records hold the fields that config.go and main.go read and write.
\<close>

record Environment =
  HasConfigFile :: bool
  InstallID :: string
  IsDefaultPricingAPIEndpoint :: bool
  Flags :: "string list"

record State =
  StateInstallID :: string

type_synonym Credentials = "(string \<times> string) list"

record Config =
  Environment :: Environment
  State :: "State option"
  Credentials :: Credentials
  Version :: string
  LogLevel :: string
  NoColor :: bool
  SkipUpdateCheck :: bool
  APIKey :: string
  PricingAPIEndpoint :: string
  DefaultPricingAPIEndpoint :: string
  DashboardAPIEndpoint :: string
  Projects :: "Project list"
  Format :: string
  ShowSkipped :: bool
  SyncUsageFile :: bool
  Fields :: "string list"

text \<open>The document that \<^verbatim>\<open>LoadConfigFile\<close> parses: its \<^verbatim>\<open>Projects\<close>.\<close>

record ConfigFileSpec =
  FileProjects :: "Project list"

text \<open>The zero value of a \<^verbatim>\<open>Project\<close>, the element \<^verbatim>\<open>{}\<close> of the default sequence.\<close>

definition zeroProject :: Project where
  "zeroProject =
     \<lparr>Path = [], TerraformPlanFlags = [], TerraformBinary = [], TerraformWorkspace = [],
      TerraformCloudHost = [], TerraformCloudToken = [], UsageFile = [],
      TerraformUseState = False\<rparr>"

text \<open>
  Modelled from the spec: \<^verbatim>\<open>NewEnvironment\<close> is not in the source files. The environment
  record is filled in incrementally as resolution proceeds, so the fields written by
  config.go and main.go start at their zero values.
\<close>

definition NewEnvironment :: Environment where
  "NewEnvironment =
     \<lparr>HasConfigFile = False, InstallID = [], IsDefaultPricingAPIEndpoint = False, Flags = []\<rparr>"

definition DefaultConfig :: Config where
  "DefaultConfig =
     \<lparr>Environment = NewEnvironment,
      State = None,
      Credentials = [],
      Version = [],
      LogLevel = [],
      NoColor = False,
      SkipUpdateCheck = False,
      APIKey = [],
      PricingAPIEndpoint = ''https://pricing.api.infracost.io'',
      DefaultPricingAPIEndpoint = ''https://pricing.api.infracost.io'',
      DashboardAPIEndpoint = ''https://dashboard.api.infracost.io'',
      Projects = [zeroProject],
      Format = ''table'',
      ShowSkipped = False,
      SyncUsageFile = False,
      Fields = [''monthlyQuantity'', ''unit'', ''monthlyCost'']\<rparr>"

section \<open>External collaborators\<close>

text \<open>
  The collaborators that the two source files call and that live outside them. Every
  theorem below holds for any behaviour of these functions.
  \<^item> \<open>ParseLevel\<close>: \<^verbatim>\<open>logrus.ParseLevel\<close>;
  \<^item> \<open>StripColor\<close>: \<^verbatim>\<open>ui.StripColor\<close>;
  \<^item> \<open>LoadConfigFile\<close>: \<^verbatim>\<open>config.LoadConfigFile\<close>;
  \<^item> \<open>stateFile\<close>, \<open>credentialsFile\<close>: what the state and credentials loaders find;
  \<^item> \<open>CheckForUpdate\<close>: \<^verbatim>\<open>update.CheckForUpdate\<close>, the Go pair of result and error;
  \<^item> \<open>Stack\<close>: the text of \<^verbatim>\<open>debug.Stack()\<close>;
  \<^item> \<open>NoColorAtStart\<close>: the value of \<^verbatim>\<open>color.NoColor\<close> at process start, which the
    colour library derives from the terminal.
\<close>

record UpdateInfo =
  LatestVersion :: string
  Cmd :: string

record externals =
  ParseLevel :: "string \<Rightarrow> error + Level"
  StripColor :: "string \<Rightarrow> string"
  LoadConfigFile :: "string \<Rightarrow> error + ConfigFileSpec"
  stateFile :: "error + State"
  credentialsFile :: "error + Credentials"
  CheckForUpdate :: "Config \<Rightarrow> UpdateInfo option \<times> error option"
  Stack :: string
  NoColorAtStart :: bool

text \<open>The process environment, as \<^verbatim>\<open>os.LookupEnv\<close> reads it.\<close>

type_synonym environ = "string \<rightharpoonup> string"

section \<open>Binding environment variables (envconfig.Process)\<close>

text \<open>\<^verbatim>\<open>strconv.ParseBool\<close>.\<close>

definition ParseBool :: "string \<Rightarrow> bool option" where
  "ParseBool s =
     (if s \<in> set [''1'', ''t'', ''T'', ''TRUE'', ''true'', ''True''] then Some True
      else if s \<in> set [''0'', ''f'', ''F'', ''FALSE'', ''false'', ''False''] then Some False
      else None)"

text \<open>
  A field tagged \<^verbatim>\<open>envconfig:"KEY"\<close> keeps its value when \<open>KEY\<close> is unset and takes the
  variable's value when it is set (also when it is set to the empty string). A string
  field takes any value; a bool field fails with a \<open>ParseError\<close> when the value does not
  parse.
\<close>

definition bindString :: "environ \<Rightarrow> string \<Rightarrow> string \<Rightarrow> string" where
  "bindString env key cur = (case env key of None \<Rightarrow> cur | Some v \<Rightarrow> v)"

definition bindBool :: "environ \<Rightarrow> string \<Rightarrow> string \<Rightarrow> bool \<Rightarrow> error + bool" where
  "bindBool env key field cur =
     (case env key of
        None \<Rightarrow> Inr cur
      | Some v \<Rightarrow> (case ParseBool v of
                    None \<Rightarrow> Inl (ParseError key field ''bool'' v)
                  | Some b \<Rightarrow> Inr b))"

text \<open>
  \<^verbatim>\<open>envconfig.Process("", project)\<close>: the four tagged fields of \<^verbatim>\<open>Project\<close>, all strings;
  the fields tagged \<^verbatim>\<open>ignored:"true"\<close> are left alone. The project is updated in place,
  so the result holds the project as it is left together with the error, if any.
\<close>

definition Process_Project :: "environ \<Rightarrow> Project \<Rightarrow> Project \<times> error option" where
  "Process_Project env p =
     (p\<lparr>TerraformBinary := bindString env ''INFRACOST_TERRAFORM_BINARY'' (TerraformBinary p),
        TerraformWorkspace := bindString env ''INFRACOST_TERRAFORM_WORKSPACE'' (TerraformWorkspace p),
        TerraformCloudHost := bindString env ''INFRACOST_TERRAFORM_CLOUD_HOST'' (TerraformCloudHost p),
        TerraformCloudToken := bindString env ''INFRACOST_TERRAFORM_CLOUD_TOKEN'' (TerraformCloudToken p)\<rparr>,
      None)"

text \<open>
  \<^verbatim>\<open>envconfig.Process("", c)\<close> gathers the fields of \<^verbatim>\<open>Config\<close> in declaration order,
  leaving out the ones tagged \<^verbatim>\<open>ignored:"true"\<close>, and descends into the fields that are
  structs: \<^verbatim>\<open>Environment\<close>, \<^verbatim>\<open>State\<close> and \<^verbatim>\<open>Credentials\<close> carry no tag in
  config.go, so their fields are bound under the keys \<open>ENVIRONMENT_\<close>, \<open>STATE_\<close> and
  \<open>CREDENTIALS_\<close> followed by the upper-cased field name. A nil pointer to a struct is
  replaced by a zero value while the fields are gathered, before any field is assigned.
  The fields are then assigned one after the other, so a failure at a bool field
  leaves the earlier fields assigned.

  The declarations of the three sub-entities are outside the two source files: the
  binding covers the fields that the records above hold, in the order of the records,
  and \<^verbatim>\<open>Credentials\<close> is held as it is.
\<close>

definition zeroState :: State where
  "zeroState = \<lparr>StateInstallID = []\<rparr>"

text \<open>
  A slice of strings takes the pieces of the value between commas, and the empty slice
  when the value is blank (\<^verbatim>\<open>strings.TrimSpace\<close>, here on ASCII white space).
\<close>

fun splitOn :: "char \<Rightarrow> string \<Rightarrow> string list" where
  "splitOn d [] = [[]]"
| "splitOn d (c # cs) =
     (if c = d then [] # splitOn d cs
      else (case splitOn d cs of [] \<Rightarrow> [[c]] | w # ws \<Rightarrow> (c # w) # ws))"

definition isSpace :: "char \<Rightarrow> bool" where
  "isSpace c = (c \<in> set [CHR 0x09, CHR 0x0A, CHR 0x0B, CHR 0x0C, CHR 0x0D, CHR '' ''])"

definition bindStrings :: "environ \<Rightarrow> string \<Rightarrow> string list \<Rightarrow> string list" where
  "bindStrings env key cur =
     (case env key of
        None \<Rightarrow> cur
      | Some v \<Rightarrow> (if list_all isSpace v then [] else splitOn CHR '','' v))"

text \<open>
  The assignment of one field of the configuration, given how the field is read and
  written, and the loop over the gathered fields, which stops at the first error.
\<close>

definition stringField :: "environ \<Rightarrow> string \<Rightarrow> (Config \<Rightarrow> string)
    \<Rightarrow> (string \<Rightarrow> Config \<Rightarrow> Config) \<Rightarrow> Config \<Rightarrow> Config \<times> error option" where
  "stringField env key get put c = (put (bindString env key (get c)) c, None)"

definition stringsField :: "environ \<Rightarrow> string \<Rightarrow> (Config \<Rightarrow> string list)
    \<Rightarrow> (string list \<Rightarrow> Config \<Rightarrow> Config) \<Rightarrow> Config \<Rightarrow> Config \<times> error option" where
  "stringsField env key get put c = (put (bindStrings env key (get c)) c, None)"

definition boolField :: "environ \<Rightarrow> string \<Rightarrow> string \<Rightarrow> (Config \<Rightarrow> bool)
    \<Rightarrow> (bool \<Rightarrow> Config \<Rightarrow> Config) \<Rightarrow> Config \<Rightarrow> Config \<times> error option" where
  "boolField env key field get put c =
     (case bindBool env key field (get c) of
        Inl e \<Rightarrow> (c, Some e)
      | Inr b \<Rightarrow> (put b c, None))"

fun bindFields :: "(Config \<Rightarrow> Config \<times> error option) list \<Rightarrow> Config
    \<Rightarrow> Config \<times> error option" where
  "bindFields [] c = (c, None)"
| "bindFields (f # fs) c =
     (case f c of
        (c', Some e) \<Rightarrow> (c', Some e)
      | (c', None) \<Rightarrow> bindFields fs c')"

definition Process_Config :: "environ \<Rightarrow> Config \<Rightarrow> Config \<times> error option" where
  "Process_Config env c =
     bindFields
       [boolField env ''ENVIRONMENT_HASCONFIGFILE'' ''HasConfigFile''
          (\<lambda>c. HasConfigFile (Environment c))
          (\<lambda>v c. c\<lparr>Environment := (Environment c)\<lparr>HasConfigFile := v\<rparr>\<rparr>),
        stringField env ''ENVIRONMENT_INSTALLID''
          (\<lambda>c. InstallID (Environment c))
          (\<lambda>v c. c\<lparr>Environment := (Environment c)\<lparr>InstallID := v\<rparr>\<rparr>),
        boolField env ''ENVIRONMENT_ISDEFAULTPRICINGAPIENDPOINT'' ''IsDefaultPricingAPIEndpoint''
          (\<lambda>c. IsDefaultPricingAPIEndpoint (Environment c))
          (\<lambda>v c. c\<lparr>Environment := (Environment c)\<lparr>IsDefaultPricingAPIEndpoint := v\<rparr>\<rparr>),
        stringsField env ''ENVIRONMENT_FLAGS''
          (\<lambda>c. Flags (Environment c))
          (\<lambda>v c. c\<lparr>Environment := (Environment c)\<lparr>Flags := v\<rparr>\<rparr>),
        stringField env ''STATE_INSTALLID''
          (\<lambda>c. case State c of None \<Rightarrow> [] | Some st \<Rightarrow> StateInstallID st)
          (\<lambda>v c. c\<lparr>State := map_option (\<lambda>st. st\<lparr>StateInstallID := v\<rparr>) (State c)\<rparr>),
        stringField env ''INFRACOST_LOG_LEVEL'' LogLevel (\<lambda>v c. c\<lparr>LogLevel := v\<rparr>),
        boolField env ''INFRACOST_NO_COLOR'' ''NoColor'' NoColor (\<lambda>v c. c\<lparr>NoColor := v\<rparr>),
        boolField env ''INFRACOST_SKIP_UPDATE_CHECK'' ''SkipUpdateCheck'' SkipUpdateCheck
          (\<lambda>v c. c\<lparr>SkipUpdateCheck := v\<rparr>),
        stringField env ''INFRACOST_API_KEY'' APIKey (\<lambda>v c. c\<lparr>APIKey := v\<rparr>),
        stringField env ''INFRACOST_PRICING_API_ENDPOINT'' PricingAPIEndpoint
          (\<lambda>v c. c\<lparr>PricingAPIEndpoint := v\<rparr>),
        stringField env ''INFRACOST_DEFAULT_PRICING_API_ENDPOINT'' DefaultPricingAPIEndpoint
          (\<lambda>v c. c\<lparr>DefaultPricingAPIEndpoint := v\<rparr>),
        stringField env ''INFRACOST_DASHBOARD_API_ENDPOINT'' DashboardAPIEndpoint
          (\<lambda>v c. c\<lparr>DashboardAPIEndpoint := v\<rparr>)]
       (c\<lparr>State := Some (case State c of None \<Rightarrow> zeroState | Some st \<Rightarrow> st)\<rparr>)"

section \<open>config.go\<close>

text \<open>
  The loop of \<^verbatim>\<open>loadEnvVars\<close> over \<^verbatim>\<open>c.Projects\<close>: each project is bound in turn and
  the first error ends the loop, the projects before it (and the failing one) already
  updated in place.
\<close>

fun bindProjects :: "(Project \<Rightarrow> Project \<times> error option) \<Rightarrow> Project list
    \<Rightarrow> Project list \<times> error option" where
  "bindProjects process [] = ([], None)"
| "bindProjects process (p # ps) =
     (case process p of
        (p', Some e) \<Rightarrow> (p' # ps, Some e)
      | (p', None) \<Rightarrow> (case bindProjects process ps of (ps', r) \<Rightarrow> (p' # ps', r)))"

text \<open>
  \<^verbatim>\<open>loadEnvVars\<close>, with the two calls of \<^verbatim>\<open>envconfig.Process\<close> as parameters, and
  \<^verbatim>\<open>loadEnvVars\<close> itself, on the process environment.
\<close>

definition loadEnvVarsWith :: "(Config \<Rightarrow> Config \<times> error option)
    \<Rightarrow> (Project \<Rightarrow> Project \<times> error option) \<Rightarrow> Config \<Rightarrow> Config \<times> error option" where
  "loadEnvVarsWith processConfig processProject c =
     (case processConfig c of
        (c1, Some e) \<Rightarrow> (c1, Some e)
      | (c1, None) \<Rightarrow>
          (case bindProjects processProject (Projects c1) of
             (ps, r) \<Rightarrow> (c1\<lparr>Projects := ps\<rparr>, r)))"

definition loadEnvVars :: "environ \<Rightarrow> Config \<Rightarrow> Config \<times> error option" where
  "loadEnvVars env c = loadEnvVarsWith (Process_Config env) (Process_Project env) c"

text \<open>
  \<^verbatim>\<open>ConfigureLogger\<close>: the formatter is replaced first; an empty level discards all
  output and returns; otherwise the output goes to the diagnostic stream and the level
  is parsed, the error of the parse returned before the level is set.
\<close>

definition infracostFormatter :: TextFormatter where
  "infracostFormatter = \<lparr>FullTimestamp = True, DisableColors = True, HasSortingFunc = True\<rparr>"

definition ConfigureLogger :: "externals \<Rightarrow> Config \<Rightarrow> Logger \<Rightarrow> Logger \<times> error option" where
  "ConfigureLogger ext c g =
     (let g1 = g\<lparr>Formatter := infracostFormatter\<rparr> in
      if LogLevel c = [] then (g1\<lparr>Out := Discard\<rparr>, None)
      else
        (let g2 = g1\<lparr>Out := Stderr\<rparr> in
         case ParseLevel ext (LogLevel c) of
           Inl e \<Rightarrow> (g2, Some e)
         | Inr level \<Rightarrow> (g2\<lparr>Level := level\<rparr>, None)))"

definition IsLogging :: "Config \<Rightarrow> bool" where
  "IsLogging c = (LogLevel c \<noteq> [])"

text \<open>
  Modelled from the spec: \<^verbatim>\<open>loadState\<close> and \<^verbatim>\<open>loadCredentials\<close> are not in the source
  files. The state loader reads the persisted install record (or creates it) and stores
  it in the configuration; the credentials loader reads the persisted credential
  material; a file that is present and malformed is the error of either.
\<close>

definition loadState :: "externals \<Rightarrow> Config \<Rightarrow> Config \<times> error option" where
  "loadState ext c =
     (case stateFile ext of Inl e \<Rightarrow> (c, Some e) | Inr st \<Rightarrow> (c\<lparr>State := Some st\<rparr>, None))"

definition loadCredentials :: "externals \<Rightarrow> Config \<Rightarrow> Config \<times> error option" where
  "loadCredentials ext c =
     (case credentialsFile ext of
        Inl e \<Rightarrow> (c, Some e)
      | Inr cr \<Rightarrow> (c\<lparr>Credentials := cr\<rparr>, None))"

text \<open>
  A call that can end the process: \<^verbatim>\<open>logrus.Fatal\<close> logs the error and exits with
  status 1, so nothing of the caller runs after it; a nil dereference before any
  deferred handler exists ends the process with status 2.
\<close>

datatype 'a call = Fatal error | NilDereference | Returns 'a

definition LoadFromEnv :: "externals \<Rightarrow> environ \<Rightarrow> Config \<Rightarrow> Logger
    \<Rightarrow> (Config \<times> Logger \<times> error option) call" where
  "LoadFromEnv ext env c g =
     (case loadEnvVars env c of
        (c1, Some e) \<Rightarrow> Returns (c1, g, Some e)
      | (c1, None) \<Rightarrow>
          (case ConfigureLogger ext c1 g of
             (g1, Some e) \<Rightarrow> Returns (c1, g1, Some e)
           | (g1, None) \<Rightarrow>
               (case loadState ext c1 of
                  (c2, Some e) \<Rightarrow> Fatal e
                | (c2, None) \<Rightarrow>
                    (case State c2 of
                       None \<Rightarrow> NilDereference
                     | Some st \<Rightarrow>
                         (let c3 = c2\<lparr>Environment :=
                                       (Environment c2)\<lparr>InstallID := StateInstallID st\<rparr>\<rparr> in
                          case loadCredentials ext c3 of
                            (c4, Some e) \<Rightarrow> Fatal e
                          | (c4, None) \<Rightarrow> Returns (c4, g1, None))))))"


section \<open>main.go\<close>

subsection \<open>Command-line flags (pflag)\<close>

datatype FlagValue = BoolValue bool | StringValue string

record Flag =
  Name :: string
  Value :: FlagValue
  Changed :: bool

type_synonym FlagSet = "Flag list"

definition Lookup :: "FlagSet \<Rightarrow> string \<Rightarrow> Flag option" where
  "Lookup fs n = find (\<lambda>f. Name f = n) fs"

text \<open>\<^verbatim>\<open>Flags().Changed(name)\<close>: false for a flag that is not defined.\<close>

definition FlagChanged :: "FlagSet \<Rightarrow> string \<Rightarrow> bool" where
  "FlagChanged fs n = (case Lookup fs n of None \<Rightarrow> False | Some f \<Rightarrow> Changed f)"

text \<open>
  \<^verbatim>\<open>GetBool\<close> and \<^verbatim>\<open>GetString\<close> with the error dropped, as the source drops it: the zero
  value for a flag that is not defined or has another type.
\<close>

definition GetBool :: "FlagSet \<Rightarrow> string \<Rightarrow> bool" where
  "GetBool fs n =
     (case Lookup fs n of
        None \<Rightarrow> False
      | Some f \<Rightarrow> (case Value f of BoolValue b \<Rightarrow> b | StringValue s \<Rightarrow> False))"

definition GetString :: "FlagSet \<Rightarrow> string \<Rightarrow> string" where
  "GetString fs n =
     (case Lookup fs n of
        None \<Rightarrow> []
      | Some f \<Rightarrow> (case Value f of BoolValue b \<Rightarrow> [] | StringValue s \<Rightarrow> s))"

text \<open>
  \<^verbatim>\<open>Visit\<close> calls its function for the flags that have been set, sorted by name (the
  order of the bytes of the names).
\<close>

definition Visit :: "FlagSet \<Rightarrow> string list" where
  "Visit fs = sort_key (map (of_char :: char \<Rightarrow> nat)) (map Name (filter Changed fs))"

subsection \<open>Process-wide state\<close>

record globals =
  logrus :: Logger
  color_NoColor :: bool

subsection \<open>loadGlobalFlags\<close>

definition loadGlobalFlags :: "externals \<Rightarrow> FlagSet \<Rightarrow> Config \<Rightarrow> globals
    \<Rightarrow> Config \<times> globals \<times> error option" where
  "loadGlobalFlags ext fs c gl =
     (let c1 = (if FlagChanged fs ''no-color'' then c\<lparr>NoColor := GetBool fs ''no-color''\<rparr> else c);
          gl1 = gl\<lparr>color_NoColor := NoColor c1\<rparr>
      in
      case (if FlagChanged fs ''log-level''
            then (let c2 = c1\<lparr>LogLevel := GetString fs ''log-level''\<rparr> in
                  case ConfigureLogger ext c2 (logrus gl1) of
                    (g, r) \<Rightarrow> (c2, gl1\<lparr>logrus := g\<rparr>, r))
            else (c1, gl1, None)) of
        (c2, gl2, Some e) \<Rightarrow> (c2, gl2, Some e)
      | (c2, gl2, None) \<Rightarrow>
          (let c3 = (if FlagChanged fs ''pricing-api-endpoint''
                     then c2\<lparr>PricingAPIEndpoint := GetString fs ''pricing-api-endpoint''\<rparr>
                     else c2);
               c4 = c3\<lparr>Environment :=
                          (Environment c3)\<lparr>IsDefaultPricingAPIEndpoint :=
                                              (PricingAPIEndpoint c3 = DefaultPricingAPIEndpoint c3),
                                            Flags := Visit fs\<rparr>\<rparr>
           in (c4, gl2, None)))"

subsection \<open>What the process does, as a trace\<close>

datatype event =
    RunBody
  | CommandOutput string
  | SpinnerFail
  | WriteStderr string
  | PrintError string
  | PrintUnexpectedError string string
  | SendReport string string
  | Receive "UpdateInfo option"
  | UpdateNotice UpdateInfo
  | LogFatal error

subsection \<open>The update check and its handoff channel\<close>

text \<open>
  The background task of \<^verbatim>\<open>startUpdateCheck\<close>, as the operations it performs in order
  once \<^verbatim>\<open>CheckForUpdate\<close> has returned.
\<close>

datatype task_op = LogDebugf string | Send "UpdateInfo option" | Close

definition startUpdateCheck :: "externals \<Rightarrow> Config \<Rightarrow> task_op list" where
  "startUpdateCheck ext cfg =
     (case CheckForUpdate ext cfg of
        (updateInfo, err) \<Rightarrow>
          (case err of
             None \<Rightarrow> []
           | Some e \<Rightarrow> [LogDebugf (''error checking for update: '' @ Error e)])
          @ [Send updateInfo, Close])"

text \<open>
  One receive on the unbuffered channel by the only receiver, against the operations of
  the only sender: it meets the sender's first send, reads the zero value when the
  channel is closed first, and blocks forever (\<open>None\<close>) when the sender does neither.
\<close>

fun receive :: "task_op list \<Rightarrow> UpdateInfo option option" where
  "receive [] = None"
| "receive (LogDebugf s # ops) = receive ops"
| "receive (Send v # ops) = Some v"
| "receive (Close # ops) = Some None"

definition handleUpdateMessage :: "task_op list \<Rightarrow> event list option" where
  "handleUpdateMessage updateMessageChan =
     (case receive updateMessageChan of
        None \<Rightarrow> None
      | Some updateInfo \<Rightarrow>
          Some (Receive updateInfo #
                (case updateInfo of None \<Rightarrow> [] | Some info \<Rightarrow> [UpdateNotice info])))"

subsection \<open>Error and fault handlers\<close>

definition spinnerFail :: "bool \<Rightarrow> event list" where
  "spinnerFail spinner = (if spinner then [SpinnerFail, WriteStderr [CHR 0x0A]] else [])"

definition handleAppErr :: "externals \<Rightarrow> bool \<Rightarrow> error \<Rightarrow> event list" where
  "handleAppErr ext spinner err =
     spinnerFail spinner
     @ (if Error err \<noteq> [] then [PrintError (Error err)] else [])
     @ (let msg = (case errors_As_events err of
                     None \<Rightarrow> StripColor ext (Error err)
                   | Some label \<Rightarrow> StripColor ext label)
        in [SendReport ''error'' msg])"

text \<open>
  The recovered value of a panic is modelled by its text (its \<^verbatim>\<open>%s\<close> rendering); it is
  never nil, as \<^verbatim>\<open>recover\<close> returns it for every panic with a value.
\<close>

definition handleUnexpectedErr :: "externals \<Rightarrow> bool \<Rightarrow> string \<Rightarrow> event list" where
  "handleUnexpectedErr ext spinner unexpectedErr =
     spinnerFail spinner
     @ [PrintUnexpectedError unexpectedErr (Stack ext),
        SendReport ''error'' (unexpectedErr @ [CHR 0x0A] @ Stack ext)]"

subsection \<open>Command execution\<close>

text \<open>
  How \<^verbatim>\<open>rootCmd.Execute()\<close> ends: it returns an error (or nil), or a panic escapes it.
  The body of the selected command is outside the two source files: it is given by what
  it writes, whether it leaves a spinner active, and how it ends, as a function of the
  configuration it receives.
\<close>

datatype outcome = Return "error option" | Panic string

record body_result =
  bodyOutput :: "string list"
  spinnerActive :: bool
  ending :: outcome

record invocation =
  cmdFlags :: FlagSet
  cmdBody :: "Config \<Rightarrow> body_result"

text \<open>
  \<^verbatim>\<open>Execute\<close> runs the \<^verbatim>\<open>PersistentPreRunE\<close> hook, which is \<^verbatim>\<open>loadGlobalFlags\<close>, and
  returns its error without running the body; otherwise the body runs.
\<close>

definition Execute :: "externals \<Rightarrow> invocation \<Rightarrow> Config \<Rightarrow> globals
    \<Rightarrow> event list \<times> bool \<times> outcome" where
  "Execute ext ivc cfg gl =
     (case loadGlobalFlags ext (cmdFlags ivc) cfg gl of
        (c1, gl1, Some e) \<Rightarrow> ([], False, Return (Some e))
      | (c1, gl1, None) \<Rightarrow>
          (let r = cmdBody ivc c1 in
           (RunBody # map CommandOutput (bodyOutput r), spinnerActive r, ending r)))"

subsection \<open>main\<close>

text \<open>
  A run of the process: its exit status (\<open>None\<close> when it never exits), what it did in
  order, and how \<^verbatim>\<open>rootCmd.Execute()\<close> ended when it was reached.

  \<^verbatim>\<open>appErr\<close> holds the result of \<^verbatim>\<open>LoadFromEnv\<close> until \<^verbatim>\<open>rootCmd.Execute()\<close> returns
  and is assigned to it; when a panic escapes \<^verbatim>\<open>Execute\<close> the assignment does not happen.
  The deferred function then reports \<^verbatim>\<open>appErr\<close>, recovers and reports the panic, drains
  the channel and exits with status 1 when either is present.
\<close>

record run =
  exitStatus :: "nat option"
  trace :: "event list"
  executed :: "outcome option"

definition main :: "externals \<Rightarrow> environ \<Rightarrow> invocation \<Rightarrow> run" where
  "main ext env ivc =
     (case LoadFromEnv ext env DefaultConfig StandardLogger of
        Fatal e \<Rightarrow> \<lparr>exitStatus = Some 1, trace = [LogFatal e], executed = None\<rparr>
      | NilDereference \<Rightarrow> \<lparr>exitStatus = Some 2, trace = [], executed = None\<rparr>
      | Returns (cfg, g, startErr) \<Rightarrow>
          (let updateMessageChan = startUpdateCheck ext cfg in
           case Execute ext ivc cfg \<lparr>logrus = g, color_NoColor = NoColorAtStart ext\<rparr> of
             (out, spinner, oc) \<Rightarrow>
               (let appErr = (case oc of Return r \<Rightarrow> r | Panic v \<Rightarrow> startErr);
                    unexpectedErr = (case oc of Return r \<Rightarrow> None | Panic v \<Rightarrow> Some v);
                    t1 = (case appErr of None \<Rightarrow> [] | Some e \<Rightarrow> handleAppErr ext spinner e);
                    t2 = (case unexpectedErr of
                            None \<Rightarrow> []
                          | Some v \<Rightarrow> handleUnexpectedErr ext spinner v)
                in
                case handleUpdateMessage updateMessageChan of
                  None \<Rightarrow> \<lparr>exitStatus = None, trace = out @ t1 @ t2, executed = Some oc\<rparr>
                | Some t3 \<Rightarrow>
                    \<lparr>exitStatus = Some (if appErr \<noteq> None \<or> unexpectedErr \<noteq> None then 1 else 0),
                     trace = out @ t1 @ t2 @ t3,
                     executed = Some oc\<rparr>)))"

section \<open>Observations on traces\<close>

text \<open>The event reports sent (kind and message), in order.\<close>

fun reports :: "event list \<Rightarrow> (string \<times> string) list" where
  "reports [] = []"
| "reports (SendReport kind msg # evs) = (kind, msg) # reports evs"
| "reports (ev # evs) = reports evs"

text \<open>Whether an event belongs to the drain of the handoff channel or to what follows it.\<close>

fun isDrain :: "event \<Rightarrow> bool" where
  "isDrain (Receive v) = True"
| "isDrain (UpdateNotice info) = True"
| "isDrain ev = False"

fun isSend :: "task_op \<Rightarrow> bool" where
  "isSend (Send v) = True"
| "isSend op = False"

fun isLogDebugf :: "task_op \<Rightarrow> bool" where
  "isLogDebugf (LogDebugf s) = True"
| "isLogDebugf op = False"

text \<open>
  Whether \<^verbatim>\<open>rootCmd.Execute()\<close> was reached and ended with a non-nil error or with a
  panic.
\<close>

definition commandFailed :: "run \<Rightarrow> bool" where
  "commandFailed r =
     (case executed r of
        None \<Rightarrow> False
      | Some (Return None) \<Rightarrow> False
      | Some (Return (Some e)) \<Rightarrow> True
      | Some (Panic v) \<Rightarrow> True)"

section \<open>Sample collaborators and inputs\<close>

text \<open>
  Concrete collaborators on which the model is run. \<open>logrusParseLevel\<close> follows
  \<^verbatim>\<open>logrus.ParseLevel\<close> on ASCII names (lower-cased, then compared with the level names);
  \<open>stripCodes\<close> removes every code that starts at an escape character and ends at the
  next letter \<open>m\<close>.
\<close>

definition asciiLower :: "char \<Rightarrow> char" where
  "asciiLower c =
     (case map_of (zip ''ABCDEFGHIJKLMNOPQRSTUVWXYZ'' ''abcdefghijklmnopqrstuvwxyz'') c of
        None \<Rightarrow> c
      | Some l \<Rightarrow> l)"

definition logrusParseLevel :: "string \<Rightarrow> error + Level" where
  "logrusParseLevel lvl =
     (let s = map asciiLower lvl in
      if s = ''panic'' then Inr PanicLevel
      else if s = ''fatal'' then Inr FatalLevel
      else if s = ''error'' then Inr ErrorLevel
      else if s = ''warn'' \<or> s = ''warning'' then Inr WarnLevel
      else if s = ''info'' then Inr InfoLevel
      else if s = ''debug'' then Inr DebugLevel
      else if s = ''trace'' then Inr TraceLevel
      else Inl (ErrorString (''not a valid logrus Level: '' @ [CHR 0x22] @ lvl @ [CHR 0x22])))"

fun stripFrom :: "bool \<Rightarrow> string \<Rightarrow> string" where
  "stripFrom inCode [] = []"
| "stripFrom inCode (c # cs) =
     (if inCode then (if c = CHR ''m'' then stripFrom False cs else stripFrom True cs)
      else if c = CHR 0x1B then stripFrom True cs
      else c # stripFrom False cs)"

definition stripCodes :: "string \<Rightarrow> string" where
  "stripCodes s = stripFrom False s"

definition sampleProjects :: "Project list" where
  "sampleProjects =
     [zeroProject\<lparr>Path := ''dev'', TerraformBinary := ''terraform_0.13''\<rparr>,
      zeroProject\<lparr>Path := ''prod'', TerraformWorkspace := ''prod''\<rparr>]"

definition sampleExternals :: externals where
  "sampleExternals =
     \<lparr>ParseLevel = logrusParseLevel,
      StripColor = stripCodes,
      LoadConfigFile =
        (\<lambda>path. if path = ''infracost.yml'' then Inr \<lparr>FileProjects = sampleProjects\<rparr>
                else Inl (ErrorString ''config file does not exist'')),
      stateFile = Inr \<lparr>StateInstallID = ''install-1''\<rparr>,
      credentialsFile = Inr [],
      CheckForUpdate = (\<lambda>cfg. (None, None)),
      Stack = ''goroutine 1 [running]'',
      NoColorAtStart = False\<rparr>"

text \<open>An invocation without flags whose body writes one line and ends as given.\<close>

definition sampleInvocation :: "outcome \<Rightarrow> invocation" where
  "sampleInvocation oc =
     \<lparr>cmdFlags = [],
      cmdBody = (\<lambda>cfg. \<lparr>bodyOutput = [''Project: dev''], spinnerActive = False, ending = oc\<rparr>)\<rparr>"

text \<open>An update result and a flag set with only \<open>--no-color\<close> set.\<close>

definition sampleUpdate :: UpdateInfo where
  "sampleUpdate = \<lparr>LatestVersion = ''v0.9.0'', Cmd = ''brew upgrade infracost''\<rparr>"

definition sampleFlags :: FlagSet where
  "sampleFlags =
     [\<lparr>Name = ''no-color'', Value = BoolValue True, Changed = True\<rparr>,
      \<lparr>Name = ''log-level'', Value = StringValue [], Changed = False\<rparr>,
      \<lparr>Name = ''pricing-api-endpoint'', Value = StringValue ''http://localhost:4000'', Changed = False\<rparr>]"

text \<open>
  A binding of projects that fails on the project with path \<open>prod\<close>, as
  \<^verbatim>\<open>envconfig.Process\<close> fails on a value that is not a pointer to a struct.
\<close>

definition failingProcess :: "Project \<Rightarrow> Project \<times> error option" where
  "failingProcess p =
     (if Path p = ''prod'' then (p, Some (ErrorString ''specification must be a struct pointer''))
      else (p, None))"

section \<open>The sample collaborators, evaluated\<close>

lemmas run_defs = main_def LoadFromEnv_def loadEnvVars_def loadEnvVarsWith_def Process_Config_def
  stringField_def stringsField_def boolField_def bindStrings_def zeroState_def
  Process_Project_def bindString_def bindBool_def ParseBool_def DefaultConfig_def zeroProject_def
  NewEnvironment_def ConfigureLogger_def loadState_def loadCredentials_def sampleExternals_def
  StandardLogger_def Execute_def loadGlobalFlags_def sampleInvocation_def FlagChanged_def
  Lookup_def Visit_def GetBool_def GetString_def startUpdateCheck_def handleUpdateMessage_def
  handleAppErr_def handleUnexpectedErr_def spinnerFail_def stripCodes_def commandFailed_def
  logrusParseLevel_def asciiLower_def sampleProjects_def infracostFormatter_def

lemma sample_ParseLevel: "ParseLevel sampleExternals = logrusParseLevel"
  by (simp add: sampleExternals_def)

lemma parse_debug: "logrusParseLevel ''debug'' = Inr DebugLevel"
  by (simp add: logrusParseLevel_def asciiLower_def)

lemma parse_bogus:
  "logrusParseLevel ''bogus''
     = Inl (ErrorString (''not a valid logrus Level: '' @ [CHR 0x22] @ ''bogus'' @ [CHR 0x22]))"
  by (simp add: logrusParseLevel_def asciiLower_def)

section \<open>The logger bootstrap\<close>

text \<open>
  C7. \<^verbatim>\<open>ConfigureLogger\<close> returns an error if and only if \<^verbatim>\<open>LogLevel\<close> is non-empty and
  \<^verbatim>\<open>logrus.ParseLevel\<close> does not recognise it. With the empty level it returns nil and the
  output is the discarding sink; with a recognised level it returns nil, the output is
  the diagnostic stream and the level is the parsed one. The formatter is the one of
  the source in both cases.
\<close>

theorem ConfigureLogger_result:
  "(snd (ConfigureLogger ext c g) \<noteq> None \<longleftrightarrow> LogLevel c \<noteq> [] \<and> isl (ParseLevel ext (LogLevel c)))
   \<and> (LogLevel c = [] \<longrightarrow>
        ConfigureLogger ext c g = (g\<lparr>Formatter := infracostFormatter, Out := Discard\<rparr>, None))
   \<and> (\<forall>level. LogLevel c \<noteq> [] \<and> ParseLevel ext (LogLevel c) = Inr level \<longrightarrow>
        ConfigureLogger ext c g
          = (g\<lparr>Formatter := infracostFormatter, Out := Stderr, Level := level\<rparr>, None))"
  by (cases "ParseLevel ext (LogLevel c)") (simp_all add: ConfigureLogger_def Let_def)

theorem ConfigureLogger_result_witness:
  "ConfigureLogger sampleExternals DefaultConfig StandardLogger
     = (StandardLogger\<lparr>Formatter := infracostFormatter, Out := Discard\<rparr>, None)
   \<and> ConfigureLogger sampleExternals (DefaultConfig\<lparr>LogLevel := ''debug''\<rparr>) StandardLogger
     = (StandardLogger\<lparr>Formatter := infracostFormatter, Out := Stderr, Level := DebugLevel\<rparr>, None)
   \<and> snd (ConfigureLogger sampleExternals (DefaultConfig\<lparr>LogLevel := ''bogus''\<rparr>) StandardLogger) \<noteq> None"
  using ConfigureLogger_result [of sampleExternals DefaultConfig StandardLogger]
    ConfigureLogger_result [of sampleExternals "DefaultConfig\<lparr>LogLevel := ''debug''\<rparr>" StandardLogger]
    ConfigureLogger_result [of sampleExternals "DefaultConfig\<lparr>LogLevel := ''bogus''\<rparr>" StandardLogger]
  by (simp add: sample_ParseLevel parse_debug parse_bogus DefaultConfig_def)

text \<open>
  C10. When \<^verbatim>\<open>LogLevel\<close> is non-empty and does not parse, \<^verbatim>\<open>ConfigureLogger\<close> returns
  the error of the parse with the logger already changed: the formatter is replaced and
  the output is the diagnostic stream; only the level is the one from before the call.
\<close>

theorem ConfigureLogger_error_path:
  assumes "LogLevel c \<noteq> []" and "ParseLevel ext (LogLevel c) = Inl e"
  shows "ConfigureLogger ext c g = (g\<lparr>Formatter := infracostFormatter, Out := Stderr\<rparr>, Some e)
         \<and> Formatter (fst (ConfigureLogger ext c g)) = infracostFormatter
         \<and> Out (fst (ConfigureLogger ext c g)) = Stderr
         \<and> Level (fst (ConfigureLogger ext c g)) = Level g"
  using assms by (simp add: ConfigureLogger_def)

theorem ConfigureLogger_error_path_witness:
  "ConfigureLogger sampleExternals (DefaultConfig\<lparr>LogLevel := ''bogus''\<rparr>)
       (StandardLogger\<lparr>Out := Discard\<rparr>)
     = (StandardLogger\<lparr>Formatter := infracostFormatter, Out := Stderr\<rparr>,
        Some (ErrorString (''not a valid logrus Level: '' @ [CHR 0x22] @ ''bogus'' @ [CHR 0x22])))
   \<and> Formatter StandardLogger \<noteq> infracostFormatter"
  using ConfigureLogger_error_path [of "DefaultConfig\<lparr>LogLevel := ''bogus''\<rparr>" sampleExternals
      "ErrorString (''not a valid logrus Level: '' @ [CHR 0x22] @ ''bogus'' @ [CHR 0x22])"
      "StandardLogger\<lparr>Out := Discard\<rparr>"]
  by (simp add: sample_ParseLevel parse_bogus DefaultConfig_def StandardLogger_def infracostFormatter_def)

section \<open>Flags\<close>

text \<open>
  C8. \<^verbatim>\<open>loadGlobalFlags\<close> leaves \<^verbatim>\<open>NoColor\<close>, \<^verbatim>\<open>LogLevel\<close> and \<^verbatim>\<open>PricingAPIEndpoint\<close>
  as they were resolved before whenever the flag of the field was not explicitly set;
  a field is overwritten only for a flag that was set, and then with the flag's value
  (the endpoint when the hook does not return early with the error of the logger).
\<close>

theorem loadGlobalFlags_frame:
  assumes "loadGlobalFlags ext fs c gl = (c', gl', r)"
  shows "(\<not> FlagChanged fs ''no-color'' \<longrightarrow> NoColor c' = NoColor c)
       \<and> (\<not> FlagChanged fs ''log-level'' \<longrightarrow> LogLevel c' = LogLevel c)
       \<and> (\<not> FlagChanged fs ''pricing-api-endpoint'' \<longrightarrow> PricingAPIEndpoint c' = PricingAPIEndpoint c)
       \<and> (FlagChanged fs ''no-color'' \<longrightarrow> NoColor c' = GetBool fs ''no-color'')
       \<and> (FlagChanged fs ''log-level'' \<longrightarrow> LogLevel c' = GetString fs ''log-level'')
       \<and> (FlagChanged fs ''pricing-api-endpoint'' \<and> r = None \<longrightarrow>
            PricingAPIEndpoint c' = GetString fs ''pricing-api-endpoint'')"
  using assms
  by (auto simp: loadGlobalFlags_def Let_def split: if_splits prod.splits option.splits)

theorem loadGlobalFlags_frame_witness:
  "loadGlobalFlags sampleExternals sampleFlags (DefaultConfig\<lparr>LogLevel := ''info''\<rparr>)
       \<lparr>logrus = StandardLogger, color_NoColor = False\<rparr>
     = (DefaultConfig\<lparr>LogLevel := ''info'', NoColor := True,
                      Environment := NewEnvironment\<lparr>IsDefaultPricingAPIEndpoint := True,
                                                   Flags := [''no-color'']\<rparr>\<rparr>,
        \<lparr>logrus = StandardLogger, color_NoColor = True\<rparr>, None)
   \<and> FlagChanged sampleFlags ''no-color'' \<and> \<not> FlagChanged sampleFlags ''log-level''
   \<and> \<not> FlagChanged sampleFlags ''pricing-api-endpoint''
   \<and> GetBool sampleFlags ''no-color'' = True
   \<and> LogLevel (DefaultConfig\<lparr>LogLevel := ''info'', NoColor := True,
                      Environment := NewEnvironment\<lparr>IsDefaultPricingAPIEndpoint := True,
                                                   Flags := [''no-color'']\<rparr>\<rparr>) = ''info''"
  using loadGlobalFlags_frame [of sampleExternals sampleFlags "DefaultConfig\<lparr>LogLevel := ''info''\<rparr>"
      "\<lparr>logrus = StandardLogger, color_NoColor = False\<rparr>"
      "DefaultConfig\<lparr>LogLevel := ''info'', NoColor := True,
                      Environment := NewEnvironment\<lparr>IsDefaultPricingAPIEndpoint := True,
                                                   Flags := [''no-color'']\<rparr>\<rparr>"
      "\<lparr>logrus = StandardLogger, color_NoColor = True\<rparr>" None]
  by (simp add: run_defs sampleFlags_def)

section \<open>Environment binding\<close>

lemma bindProjects_ok:
  "(snd (bindProjects pp ps) = None \<longleftrightarrow> (\<forall>p\<in>set ps. snd (pp p) = None))
   \<and> (snd (bindProjects pp ps) = None \<longrightarrow> fst (bindProjects pp ps) = map (\<lambda>p. fst (pp p)) ps)"
  by (induction ps) (auto split: prod.splits option.splits)

lemma bindProjects_first_error:
  assumes "\<forall>q\<in>set ps1. snd (pp q) = None" and "snd (pp p) = Some e"
  shows "snd (bindProjects pp (ps1 @ p # ps2)) = Some e"
  using assms by (induction ps1) (auto split: prod.splits option.splits)

lemma Process_Project_field:
  "snd (Process_Project env p) = None
   \<and> TerraformBinary (fst (Process_Project env p))
       = bindString env ''INFRACOST_TERRAFORM_BINARY'' (TerraformBinary p)
   \<and> TerraformWorkspace (fst (Process_Project env p))
       = bindString env ''INFRACOST_TERRAFORM_WORKSPACE'' (TerraformWorkspace p)
   \<and> TerraformCloudHost (fst (Process_Project env p))
       = bindString env ''INFRACOST_TERRAFORM_CLOUD_HOST'' (TerraformCloudHost p)
   \<and> TerraformCloudToken (fst (Process_Project env p))
       = bindString env ''INFRACOST_TERRAFORM_CLOUD_TOKEN'' (TerraformCloudToken p)
   \<and> Path (fst (Process_Project env p)) = Path p
   \<and> TerraformPlanFlags (fst (Process_Project env p)) = TerraformPlanFlags p
   \<and> UsageFile (fst (Process_Project env p)) = UsageFile p
   \<and> TerraformUseState (fst (Process_Project env p)) = TerraformUseState p"
  by (simp add: Process_Project_def)

lemma Process_Config_Projects: "Projects (fst (Process_Config env c)) = Projects c"
  by (simp add: Process_Config_def boolField_def stringField_def stringsField_def split: sum.splits)

lemma loadEnvVars_ok:
  assumes "loadEnvVars env c = (c1, None)"
  shows "Projects c1 = map (\<lambda>p. fst (Process_Project env p)) (Projects c)"
proof -
  obtain c0 r0 where pc: "Process_Config env c = (c0, r0)" by (cases "Process_Config env c") auto
  with assms have r0: "r0 = None"
    by (auto simp: loadEnvVars_def loadEnvVarsWith_def split: option.splits prod.splits)
  obtain ps r where bp: "bindProjects (Process_Project env) (Projects c0) = (ps, r)"
    by (cases "bindProjects (Process_Project env) (Projects c0)") auto
  from assms pc r0 bp have "r = None" and c1: "c1 = c0\<lparr>Projects := ps\<rparr>"
    by (auto simp: loadEnvVars_def loadEnvVarsWith_def)
  then have "ps = map (\<lambda>p. fst (Process_Project env p)) (Projects c0)"
    using bindProjects_ok [of "Process_Project env" "Projects c0"] bp by simp
  moreover have "Projects c0 = Projects c" using Process_Config_Projects [of env c] pc by simp
  ultimately show ?thesis using c1 by simp
qed

text \<open>
  C6. \<^verbatim>\<open>loadEnvVars\<close> binds the top-level configuration and then every project of the
  sequence in order. An error of the binding of the configuration is returned; an error
  of the binding of a project, all projects before it bound without error, is returned;
  \<^verbatim>\<open>loadEnvVars\<close> returns nil exactly when no binding fails. When it returns nil every
  project has been bound against the same environment, so one set project-scoped
  variable is the value of its field on all projects.
\<close>

theorem loadEnvVars_binds_every_project:
  "(\<forall>e. snd (processConfig c) = Some e \<longrightarrow>
        snd (loadEnvVarsWith processConfig processProject c) = Some e)
   \<and> (\<forall>ps1 p ps2 e. snd (processConfig c) = None
          \<and> Projects (fst (processConfig c)) = ps1 @ p # ps2
          \<and> (\<forall>q\<in>set ps1. snd (processProject q) = None) \<and> snd (processProject p) = Some e \<longrightarrow>
        snd (loadEnvVarsWith processConfig processProject c) = Some e)
   \<and> (snd (loadEnvVarsWith processConfig processProject c) = None \<longleftrightarrow>
        snd (processConfig c) = None
        \<and> (\<forall>p\<in>set (Projects (fst (processConfig c))). snd (processProject p) = None))
   \<and> (snd (loadEnvVars env c) = None \<longrightarrow>
        Projects (fst (loadEnvVars env c)) = map (\<lambda>p. fst (Process_Project env p)) (Projects c)
        \<and> (\<forall>v. env ''INFRACOST_TERRAFORM_BINARY'' = Some v \<longrightarrow>
               (\<forall>p\<in>set (Projects (fst (loadEnvVars env c))). TerraformBinary p = v))
        \<and> (\<forall>v. env ''INFRACOST_TERRAFORM_WORKSPACE'' = Some v \<longrightarrow>
               (\<forall>p\<in>set (Projects (fst (loadEnvVars env c))). TerraformWorkspace p = v))
        \<and> (\<forall>v. env ''INFRACOST_TERRAFORM_CLOUD_HOST'' = Some v \<longrightarrow>
               (\<forall>p\<in>set (Projects (fst (loadEnvVars env c))). TerraformCloudHost p = v))
        \<and> (\<forall>v. env ''INFRACOST_TERRAFORM_CLOUD_TOKEN'' = Some v \<longrightarrow>
               (\<forall>p\<in>set (Projects (fst (loadEnvVars env c))). TerraformCloudToken p = v)))"
proof -
  obtain c0 r0 where pc: "processConfig c = (c0, r0)" by (cases "processConfig c") auto
  obtain ps r where bp: "bindProjects processProject (Projects c0) = (ps, r)"
    by (cases "bindProjects processProject (Projects c0)") auto
  have a: "\<forall>e. snd (processConfig c) = Some e \<longrightarrow>
        snd (loadEnvVarsWith processConfig processProject c) = Some e"
    using pc by (simp add: loadEnvVarsWith_def)
  have b: "\<forall>ps1 p ps2 e. snd (processConfig c) = None
          \<and> Projects (fst (processConfig c)) = ps1 @ p # ps2
          \<and> (\<forall>q\<in>set ps1. snd (processProject q) = None) \<and> snd (processProject p) = Some e \<longrightarrow>
        snd (loadEnvVarsWith processConfig processProject c) = Some e"
  proof (intro allI impI)
    fix ps1 p ps2 e
    assume h: "snd (processConfig c) = None
          \<and> Projects (fst (processConfig c)) = ps1 @ p # ps2
          \<and> (\<forall>q\<in>set ps1. snd (processProject q) = None) \<and> snd (processProject p) = Some e"
    then have "snd (bindProjects processProject (Projects c0)) = Some e"
      using pc bindProjects_first_error [of ps1 processProject p e ps2] by simp
    then show "snd (loadEnvVarsWith processConfig processProject c) = Some e"
      using pc h bp by (simp add: loadEnvVarsWith_def)
  qed
  have c: "snd (loadEnvVarsWith processConfig processProject c) = None \<longleftrightarrow>
        snd (processConfig c) = None
        \<and> (\<forall>p\<in>set (Projects (fst (processConfig c))). snd (processProject p) = None)"
    using pc bp bindProjects_ok [of processProject "Projects c0"]
    by (cases r0) (simp_all add: loadEnvVarsWith_def)
  have d: "snd (loadEnvVars env c) = None \<longrightarrow>
        Projects (fst (loadEnvVars env c)) = map (\<lambda>p. fst (Process_Project env p)) (Projects c)
        \<and> (\<forall>v. env ''INFRACOST_TERRAFORM_BINARY'' = Some v \<longrightarrow>
               (\<forall>p\<in>set (Projects (fst (loadEnvVars env c))). TerraformBinary p = v))
        \<and> (\<forall>v. env ''INFRACOST_TERRAFORM_WORKSPACE'' = Some v \<longrightarrow>
               (\<forall>p\<in>set (Projects (fst (loadEnvVars env c))). TerraformWorkspace p = v))
        \<and> (\<forall>v. env ''INFRACOST_TERRAFORM_CLOUD_HOST'' = Some v \<longrightarrow>
               (\<forall>p\<in>set (Projects (fst (loadEnvVars env c))). TerraformCloudHost p = v))
        \<and> (\<forall>v. env ''INFRACOST_TERRAFORM_CLOUD_TOKEN'' = Some v \<longrightarrow>
               (\<forall>p\<in>set (Projects (fst (loadEnvVars env c))). TerraformCloudToken p = v))"
  proof
    assume ok: "snd (loadEnvVars env c) = None"
    then have "loadEnvVars env c = (fst (loadEnvVars env c), None)"
      by (metis prod.collapse)
    from loadEnvVars_ok [OF this]
    have p: "Projects (fst (loadEnvVars env c)) = map (\<lambda>p. fst (Process_Project env p)) (Projects c)" .
    show "Projects (fst (loadEnvVars env c)) = map (\<lambda>p. fst (Process_Project env p)) (Projects c)
        \<and> (\<forall>v. env ''INFRACOST_TERRAFORM_BINARY'' = Some v \<longrightarrow>
               (\<forall>p\<in>set (Projects (fst (loadEnvVars env c))). TerraformBinary p = v))
        \<and> (\<forall>v. env ''INFRACOST_TERRAFORM_WORKSPACE'' = Some v \<longrightarrow>
               (\<forall>p\<in>set (Projects (fst (loadEnvVars env c))). TerraformWorkspace p = v))
        \<and> (\<forall>v. env ''INFRACOST_TERRAFORM_CLOUD_HOST'' = Some v \<longrightarrow>
               (\<forall>p\<in>set (Projects (fst (loadEnvVars env c))). TerraformCloudHost p = v))
        \<and> (\<forall>v. env ''INFRACOST_TERRAFORM_CLOUD_TOKEN'' = Some v \<longrightarrow>
               (\<forall>p\<in>set (Projects (fst (loadEnvVars env c))). TerraformCloudToken p = v))"
      unfolding p by (auto simp: Process_Project_field bindString_def)
  qed
  show ?thesis using a b c d by blast
qed

theorem loadEnvVars_binds_every_project_witness:
  "snd (loadEnvVars [''INFRACOST_TERRAFORM_BINARY'' \<mapsto> ''terraform_0.14'']
          (DefaultConfig\<lparr>Projects := sampleProjects\<rparr>)) = None
   \<and> map TerraformBinary (Projects (fst (loadEnvVars [''INFRACOST_TERRAFORM_BINARY'' \<mapsto> ''terraform_0.14'']
          (DefaultConfig\<lparr>Projects := sampleProjects\<rparr>))))
       = [''terraform_0.14'', ''terraform_0.14'']
   \<and> snd (loadEnvVarsWith (Process_Config [''INFRACOST_NO_COLOR'' \<mapsto> ''maybe'']) failingProcess
          (DefaultConfig\<lparr>Projects := sampleProjects\<rparr>))
       = Some (ParseError ''INFRACOST_NO_COLOR'' ''NoColor'' ''bool'' ''maybe'')
   \<and> snd (loadEnvVarsWith (Process_Config Map.empty) failingProcess
          (DefaultConfig\<lparr>Projects := sampleProjects\<rparr>))
       = Some (ErrorString ''specification must be a struct pointer'')"
  using loadEnvVars_binds_every_project [of "Process_Config [''INFRACOST_NO_COLOR'' \<mapsto> ''maybe'']"
      "DefaultConfig\<lparr>Projects := sampleProjects\<rparr>" failingProcess
      "[''INFRACOST_TERRAFORM_BINARY'' \<mapsto> ''terraform_0.14'']"]
    loadEnvVars_binds_every_project [of "Process_Config Map.empty"
      "DefaultConfig\<lparr>Projects := sampleProjects\<rparr>" failingProcess Map.empty]
  by (simp add: run_defs failingProcess_def)









section \<open>The run of the process\<close>

lemma drain_startUpdateCheck:
  "handleUpdateMessage (startUpdateCheck ext cfg)
     = Some (Receive (fst (CheckForUpdate ext cfg))
             # (case fst (CheckForUpdate ext cfg) of None \<Rightarrow> [] | Some info \<Rightarrow> [UpdateNotice info]))"
  by (cases "CheckForUpdate ext cfg")
     (simp add: handleUpdateMessage_def startUpdateCheck_def split: option.splits)

lemma main_Returns:
  assumes "LoadFromEnv ext env DefaultConfig StandardLogger = Returns (cfg, g, startErr)"
    and "Execute ext ivc cfg \<lparr>logrus = g, color_NoColor = NoColorAtStart ext\<rparr> = (out, spinner, oc)"
  shows "main ext env ivc =
     \<lparr>exitStatus = Some (if (case oc of Return r \<Rightarrow> r | Panic v \<Rightarrow> startErr) \<noteq> None
                            \<or> (case oc of Return r \<Rightarrow> None | Panic v \<Rightarrow> Some v) \<noteq> None
                         then 1 else 0),
      trace = out
        @ (case (case oc of Return r \<Rightarrow> r | Panic v \<Rightarrow> startErr) of
             None \<Rightarrow> [] | Some e \<Rightarrow> handleAppErr ext spinner e)
        @ (case (case oc of Return r \<Rightarrow> None | Panic v \<Rightarrow> Some v) of
             None \<Rightarrow> [] | Some v \<Rightarrow> handleUnexpectedErr ext spinner v)
        @ Receive (fst (CheckForUpdate ext cfg))
          # (case fst (CheckForUpdate ext cfg) of None \<Rightarrow> [] | Some info \<Rightarrow> [UpdateNotice info]),
      executed = Some oc\<rparr>"
  using assms by (simp add: main_def Let_def drain_startUpdateCheck)

lemma main_executed:
  assumes "executed (main ext env ivc) = Some oc"
  shows "\<exists>cfg g startErr out spinner.
           LoadFromEnv ext env DefaultConfig StandardLogger = Returns (cfg, g, startErr)
         \<and> Execute ext ivc cfg \<lparr>logrus = g, color_NoColor = NoColorAtStart ext\<rparr> = (out, spinner, oc)"
  using assms
  by (auto simp: main_def Let_def drain_startUpdateCheck split: call.splits prod.splits)

lemma Execute_no_drain:
  assumes "Execute ext ivc cfg gl = (out, spinner, oc)"
  shows "\<forall>ev\<in>set out. \<not> isDrain ev"
  using assms by (auto simp: Execute_def Let_def split: prod.splits option.splits)

lemma Execute_no_reports:
  assumes "Execute ext ivc cfg gl = (out, spinner, oc)"
  shows "reports out = []"
proof -
  have "reports (map CommandOutput xs) = []" for xs
    by (induction xs) simp_all
  with assms show ?thesis
    by (auto simp: Execute_def Let_def split: prod.splits option.splits)
qed

lemma handleAppErr_no_drain: "\<forall>ev\<in>set (handleAppErr ext spinner e). \<not> isDrain ev"
  by (auto simp: handleAppErr_def spinnerFail_def Let_def)

lemma handleUnexpectedErr_no_drain: "\<forall>ev\<in>set (handleUnexpectedErr ext spinner v). \<not> isDrain ev"
  by (auto simp: handleUnexpectedErr_def spinnerFail_def)

lemma reports_append: "reports (xs @ ys) = reports xs @ reports ys"
  by (induction xs rule: reports.induct) simp_all

lemma reports_handleAppErr:
  "reports (handleAppErr ext spinner err)
     = [(''error'', case errors_As_events err of
                      None \<Rightarrow> StripColor ext (Error err)
                    | Some label \<Rightarrow> StripColor ext label)]"
  by (simp add: handleAppErr_def spinnerFail_def Let_def)

text \<open>
  C3. On every run that reaches \<^verbatim>\<open>rootCmd.Execute()\<close>, however it ends (nil, an error or a
  panic), the trace is the command's output and the error and fault reporting, followed
  by exactly one receive on the handoff channel, followed by the upgrade notice exactly
  when the received value is not null; nothing before the receive is a receive or a
  notice, and the process exits.
\<close>

theorem drain_once_and_last:
  assumes "executed (main ext env ivc) = Some oc"
  shows "\<exists>before info.
           trace (main ext env ivc)
             = before @ Receive info # (case info of None \<Rightarrow> [] | Some i \<Rightarrow> [UpdateNotice i])
         \<and> (\<forall>ev\<in>set before. \<not> isDrain ev)
         \<and> exitStatus (main ext env ivc) \<noteq> None"
proof -
  from main_executed [OF assms] obtain cfg g startErr out spinner where
    l: "LoadFromEnv ext env DefaultConfig StandardLogger = Returns (cfg, g, startErr)" and
    x: "Execute ext ivc cfg \<lparr>logrus = g, color_NoColor = NoColorAtStart ext\<rparr> = (out, spinner, oc)"
    by blast
  let ?before = "out
        @ (case (case oc of Return r \<Rightarrow> r | Panic v \<Rightarrow> startErr) of
             None \<Rightarrow> [] | Some e \<Rightarrow> handleAppErr ext spinner e)
        @ (case (case oc of Return r \<Rightarrow> None | Panic v \<Rightarrow> Some v) of
             None \<Rightarrow> [] | Some v \<Rightarrow> handleUnexpectedErr ext spinner v)"
  have nd: "\<forall>ev\<in>set ?before. \<not> isDrain ev"
    using Execute_no_drain [OF x] handleAppErr_no_drain handleUnexpectedErr_no_drain
    by (auto split: option.splits outcome.splits)
  have "trace (main ext env ivc)
          = ?before @ Receive (fst (CheckForUpdate ext cfg))
              # (case fst (CheckForUpdate ext cfg) of None \<Rightarrow> [] | Some i \<Rightarrow> [UpdateNotice i])"
    by (simp add: main_Returns [OF l x])
  moreover have "exitStatus (main ext env ivc) \<noteq> None"
    by (simp add: main_Returns [OF l x])
  ultimately show ?thesis using nd by blast
qed

theorem drain_once_and_last_witness:
  "executed (main (sampleExternals\<lparr>CheckForUpdate := (\<lambda>cfg. (Some sampleUpdate, None))\<rparr>) Map.empty
               (sampleInvocation (Return (Some (ErrorString ''boom'')))))
     = Some (Return (Some (ErrorString ''boom'')))
   \<and> trace (main (sampleExternals\<lparr>CheckForUpdate := (\<lambda>cfg. (Some sampleUpdate, None))\<rparr>) Map.empty
               (sampleInvocation (Return (Some (ErrorString ''boom'')))))
     = [RunBody, CommandOutput ''Project: dev'', PrintError ''boom'', SendReport ''error'' ''boom'']
       @ Receive (Some sampleUpdate) # [UpdateNotice sampleUpdate]
   \<and> filter isDrain
         [RunBody, CommandOutput ''Project: dev'', PrintError ''boom'', SendReport ''error'' ''boom'']
       = []"
  using drain_once_and_last [of "sampleExternals\<lparr>CheckForUpdate := (\<lambda>cfg. (Some sampleUpdate, None))\<rparr>"
      Map.empty "sampleInvocation (Return (Some (ErrorString ''boom'')))" "Return (Some (ErrorString ''boom''))"]
  by (simp add: run_defs)

text \<open>
  C2, amended. On every run that reaches \<^verbatim>\<open>rootCmd.Execute()\<close> (start-up did not end the
  process), the exit status is 1 if and only if \<^verbatim>\<open>Execute\<close> returned a non-nil error or
  a panic escaped it; when it returned nil the exit status is 0 and no event report is
  sent.
\<close>

theorem exit_code_of_reached_command:
  assumes "executed (main ext env ivc) \<noteq> None"
  shows "(exitStatus (main ext env ivc) = Some 1 \<longleftrightarrow> commandFailed (main ext env ivc))
       \<and> (executed (main ext env ivc) = Some (Return None) \<longrightarrow>
            exitStatus (main ext env ivc) = Some 0 \<and> reports (trace (main ext env ivc)) = [])"
proof -
  from assms obtain oc where oc: "executed (main ext env ivc) = Some oc" by blast
  from main_executed [OF oc] obtain cfg g startErr out spinner where
    l: "LoadFromEnv ext env DefaultConfig StandardLogger = Returns (cfg, g, startErr)" and
    x: "Execute ext ivc cfg \<lparr>logrus = g, color_NoColor = NoColorAtStart ext\<rparr> = (out, spinner, oc)"
    by blast
  show ?thesis
    by (cases oc)
       (auto simp: main_Returns [OF l x] commandFailed_def reports_append Execute_no_reports [OF x]
             split: option.splits)
qed

text \<open>
  C2 as stated, for every invocation, does not hold: a state file that is present and
  malformed ends the process in \<^verbatim>\<open>LoadFromEnv\<close> with status 1 although no command ran.
\<close>

theorem exit_one_without_command:
  "\<not> (exitStatus (main (sampleExternals\<lparr>stateFile := Inl (ErrorString ''invalid state file'')\<rparr>)
                      Map.empty (sampleInvocation (Return None))) = Some 1
      \<longleftrightarrow> commandFailed (main (sampleExternals\<lparr>stateFile := Inl (ErrorString ''invalid state file'')\<rparr>)
                      Map.empty (sampleInvocation (Return None))))"
  by (simp add: run_defs)

theorem exit_code_of_reached_command_witness:
  "executed (main sampleExternals Map.empty (sampleInvocation (Return None))) = Some (Return None)
   \<and> exitStatus (main sampleExternals Map.empty (sampleInvocation (Return None))) = Some 0
   \<and> reports (trace (main sampleExternals Map.empty (sampleInvocation (Return None)))) = []
   \<and> exitStatus (main sampleExternals Map.empty (sampleInvocation (Panic ''boom''))) = Some 1
   \<and> commandFailed (main sampleExternals Map.empty (sampleInvocation (Panic ''boom'')))"
  using exit_code_of_reached_command [of sampleExternals Map.empty "sampleInvocation (Return None)"]
    exit_code_of_reached_command [of sampleExternals Map.empty "sampleInvocation (Panic ''boom'')"]
  by (simp add: run_defs)

text \<open>
  C9. When the command returns an error, exactly one event report is sent, of kind
  \<open>error\<close>; its message is the stripped label when the error is or wraps a labeled
  event error, and the stripped error message otherwise. For the label
  \<open>missing-api-key\<close>, which stripping leaves as it is, the message is exactly
  \<open>missing-api-key\<close>.
\<close>

theorem report_message_of_command_error:
  assumes "executed (main ext env ivc) = Some (Return (Some err))"
  shows "reports (trace (main ext env ivc))
           = [(''error'', case errors_As_events err of
                            None \<Rightarrow> StripColor ext (Error err)
                          | Some label \<Rightarrow> StripColor ext label)]
       \<and> (errors_As_events err = Some ''missing-api-key''
            \<and> StripColor ext ''missing-api-key'' = ''missing-api-key'' \<longrightarrow>
          reports (trace (main ext env ivc)) = [(''error'', ''missing-api-key'')])"
proof -
  from main_executed [OF assms] obtain cfg g startErr out spinner where
    l: "LoadFromEnv ext env DefaultConfig StandardLogger = Returns (cfg, g, startErr)" and
    x: "Execute ext ivc cfg \<lparr>logrus = g, color_NoColor = NoColorAtStart ext\<rparr>
          = (out, spinner, Return (Some err))"
    by blast
  have "reports (trace (main ext env ivc)) = reports (handleAppErr ext spinner err)"
    by (simp add: main_Returns [OF l x] reports_append Execute_no_reports [OF x] split: option.splits)
  then show ?thesis by (simp add: reports_handleAppErr)
qed

theorem report_message_of_command_error_witness:
  "executed (main sampleExternals Map.empty
       (sampleInvocation (Return (Some (WithMessage ''breakdown''
          (EventsError ''missing-api-key'' ''No INFRACOST_API_KEY environment variable is set.''))))))
     = Some (Return (Some (WithMessage ''breakdown''
          (EventsError ''missing-api-key'' ''No INFRACOST_API_KEY environment variable is set.''))))
   \<and> errors_As_events (WithMessage ''breakdown''
          (EventsError ''missing-api-key'' ''No INFRACOST_API_KEY environment variable is set.''))
       = Some ''missing-api-key''
   \<and> StripColor sampleExternals ''missing-api-key'' = ''missing-api-key''
   \<and> reports (trace (main sampleExternals Map.empty
       (sampleInvocation (Return (Some (WithMessage ''breakdown''
          (EventsError ''missing-api-key'' ''No INFRACOST_API_KEY environment variable is set.'')))))))
     = [(''error'', ''missing-api-key'')]"
  using report_message_of_command_error [of sampleExternals Map.empty
      "sampleInvocation (Return (Some (WithMessage ''breakdown''
          (EventsError ''missing-api-key'' ''No INFRACOST_API_KEY environment variable is set.''))))"
      "WithMessage ''breakdown''
          (EventsError ''missing-api-key'' ''No INFRACOST_API_KEY environment variable is set.'')"]
  by (simp add: run_defs)

text \<open>
  C1, evaluated. With \<^verbatim>\<open>INFRACOST_LOG_LEVEL=bogus\<close> the call of \<^verbatim>\<open>LoadFromEnv\<close> returns the
  error of the level, and \<^verbatim>\<open>main\<close> goes on: the command body runs, the returned nil
  replaces the start-up error in \<^verbatim>\<open>appErr\<close>, nothing is printed or reported and the
  exit status is 0.
\<close>

theorem startup_error_overwritten:
  "LoadFromEnv sampleExternals [''INFRACOST_LOG_LEVEL'' \<mapsto> ''bogus''] DefaultConfig StandardLogger
     = Returns (DefaultConfig\<lparr>LogLevel := ''bogus'', State := Some zeroState\<rparr>,
                StandardLogger\<lparr>Formatter := infracostFormatter, Out := Stderr\<rparr>,
                Some (ErrorString (''not a valid logrus Level: '' @ [CHR 0x22] @ ''bogus'' @ [CHR 0x22])))
   \<and> main sampleExternals [''INFRACOST_LOG_LEVEL'' \<mapsto> ''bogus''] (sampleInvocation (Return None))
     = \<lparr>exitStatus = Some 0,
        trace = [RunBody, CommandOutput ''Project: dev'', Receive None],
        executed = Some (Return None)\<rparr>"
  by (simp add: run_defs)

theorem startup_error_overwritten_witness:
  "exitStatus (main sampleExternals [''INFRACOST_LOG_LEVEL'' \<mapsto> ''bogus'']
                 (sampleInvocation (Return None))) = Some 0
   \<and> RunBody \<in> set (trace (main sampleExternals [''INFRACOST_LOG_LEVEL'' \<mapsto> ''bogus'']
                              (sampleInvocation (Return None))))
   \<and> reports (trace (main sampleExternals [''INFRACOST_LOG_LEVEL'' \<mapsto> ''bogus'']
                        (sampleInvocation (Return None)))) = []"
  using startup_error_overwritten by simp

section \<open>The update check\<close>

lemma ConfigureLogger_CheckForUpdate [simp]:
  "ConfigureLogger (ext\<lparr>CheckForUpdate := u\<rparr>) c g = ConfigureLogger ext c g"
  by (simp add: ConfigureLogger_def Let_def)

lemma loadState_CheckForUpdate [simp]:
  "loadState (ext\<lparr>CheckForUpdate := u\<rparr>) c = loadState ext c"
  by (simp add: loadState_def)

lemma loadCredentials_CheckForUpdate [simp]:
  "loadCredentials (ext\<lparr>CheckForUpdate := u\<rparr>) c = loadCredentials ext c"
  by (simp add: loadCredentials_def)

lemma LoadFromEnv_CheckForUpdate [simp]:
  "LoadFromEnv (ext\<lparr>CheckForUpdate := u\<rparr>) env c g = LoadFromEnv ext env c g"
  by (simp add: LoadFromEnv_def cong: option.case_cong)

lemma loadGlobalFlags_CheckForUpdate [simp]:
  "loadGlobalFlags (ext\<lparr>CheckForUpdate := u\<rparr>) fs c gl = loadGlobalFlags ext fs c gl"
  by (simp add: loadGlobalFlags_def cong: option.case_cong if_cong)

lemma Execute_CheckForUpdate [simp]:
  "Execute (ext\<lparr>CheckForUpdate := u\<rparr>) ivc cfg gl = Execute ext ivc cfg gl"
  by (simp add: Execute_def cong: option.case_cong)

lemma main_exits: "exitStatus (main ext env ivc) \<noteq> None"
proof (cases "LoadFromEnv ext env DefaultConfig StandardLogger")
  case (Returns t)
  obtain cfg g startErr where t: "t = (cfg, g, startErr)" by (cases t) auto
  obtain out spinner oc where
    x: "Execute ext ivc cfg \<lparr>logrus = g, color_NoColor = NoColorAtStart ext\<rparr> = (out, spinner, oc)"
    by (cases "Execute ext ivc cfg \<lparr>logrus = g, color_NoColor = NoColorAtStart ext\<rparr>") auto
  show ?thesis using main_Returns [OF Returns [unfolded t] x] by simp
qed (simp_all add: main_def)

lemma main_CheckForUpdate:
  "exitStatus (main (ext\<lparr>CheckForUpdate := u\<rparr>) env ivc) = exitStatus (main ext env ivc)
   \<and> executed (main (ext\<lparr>CheckForUpdate := u\<rparr>) env ivc) = executed (main ext env ivc)"
proof (cases "LoadFromEnv ext env DefaultConfig StandardLogger")
  case (Returns t)
  obtain cfg g startErr where t: "t = (cfg, g, startErr)" by (cases t) auto
  obtain out spinner oc where
    x: "Execute ext ivc cfg \<lparr>logrus = g, color_NoColor = NoColorAtStart ext\<rparr> = (out, spinner, oc)"
    by (cases "Execute ext ivc cfg \<lparr>logrus = g, color_NoColor = NoColorAtStart ext\<rparr>") auto
  have l': "LoadFromEnv (ext\<lparr>CheckForUpdate := u\<rparr>) env DefaultConfig StandardLogger
              = Returns (cfg, g, startErr)"
    using Returns t by simp
  have x': "Execute (ext\<lparr>CheckForUpdate := u\<rparr>) ivc cfg
              \<lparr>logrus = g, color_NoColor = NoColorAtStart (ext\<lparr>CheckForUpdate := u\<rparr>)\<rparr>
              = (out, spinner, oc)"
    using x by simp
  show ?thesis
    using main_Returns [OF Returns [unfolded t] x] main_Returns [OF l' x'] by simp
qed (simp_all add: main_def)

text \<open>
  C4. Whatever \<^verbatim>\<open>CheckForUpdate\<close> returns, the checker task only logs at debug level
  before it performs exactly one send followed by the close of the channel; on a failure
  (nil result and an error) it logs the error at debug level and sends the null result.
  The drain therefore returns, the process exits, and neither the exit status nor the
  way the command ended depends on what the update check returned.
\<close>

theorem update_check_handoff:
  "(\<exists>logs. startUpdateCheck ext cfg = logs @ [Send (fst (CheckForUpdate ext cfg)), Close]
           \<and> (\<forall>op\<in>set logs. isLogDebugf op))
   \<and> length (filter isSend (startUpdateCheck ext cfg)) = 1
   \<and> (\<forall>e. CheckForUpdate ext cfg = (None, Some e) \<longrightarrow>
          startUpdateCheck ext cfg
            = [LogDebugf (''error checking for update: '' @ Error e), Send None, Close])
   \<and> handleUpdateMessage (startUpdateCheck ext cfg) \<noteq> None
   \<and> exitStatus (main ext env ivc) \<noteq> None
   \<and> exitStatus (main (ext\<lparr>CheckForUpdate := u\<rparr>) env ivc) = exitStatus (main ext env ivc)
   \<and> executed (main (ext\<lparr>CheckForUpdate := u\<rparr>) env ivc) = executed (main ext env ivc)"
proof -
  have a: "\<exists>logs. startUpdateCheck ext cfg = logs @ [Send (fst (CheckForUpdate ext cfg)), Close]
           \<and> (\<forall>op\<in>set logs. isLogDebugf op)"
    by (cases "CheckForUpdate ext cfg") (auto simp: startUpdateCheck_def split: option.splits)
  have b: "length (filter isSend (startUpdateCheck ext cfg)) = 1"
    by (cases "CheckForUpdate ext cfg") (auto simp: startUpdateCheck_def split: option.splits)
  have c: "\<forall>e. CheckForUpdate ext cfg = (None, Some e) \<longrightarrow>
          startUpdateCheck ext cfg
            = [LogDebugf (''error checking for update: '' @ Error e), Send None, Close]"
    by (simp add: startUpdateCheck_def)
  have d: "handleUpdateMessage (startUpdateCheck ext cfg) \<noteq> None"
    by (simp add: drain_startUpdateCheck)
  show ?thesis using a b c d main_exits main_CheckForUpdate by blast
qed

theorem update_check_handoff_witness:
  "CheckForUpdate (sampleExternals\<lparr>CheckForUpdate := (\<lambda>cfg. (None, Some (ErrorString ''timeout'')))\<rparr>)
       DefaultConfig = (None, Some (ErrorString ''timeout''))
   \<and> startUpdateCheck
       (sampleExternals\<lparr>CheckForUpdate := (\<lambda>cfg. (None, Some (ErrorString ''timeout'')))\<rparr>) DefaultConfig
     = [LogDebugf ''error checking for update: timeout'', Send None, Close]
   \<and> filter isLogDebugf [LogDebugf ''error checking for update: timeout'']
       = [LogDebugf ''error checking for update: timeout'']
   \<and> exitStatus (main
       (sampleExternals\<lparr>CheckForUpdate := (\<lambda>cfg. (None, Some (ErrorString ''timeout'')))\<rparr>)
       Map.empty (sampleInvocation (Return None))) = Some 0"
  using update_check_handoff [of
      "sampleExternals\<lparr>CheckForUpdate := (\<lambda>cfg. (None, Some (ErrorString ''timeout'')))\<rparr>"
      DefaultConfig Map.empty "sampleInvocation (Return None)" "\<lambda>cfg. (None, None)"]
  by (simp add: run_defs)

end
